theory Spec2Isabelle
  imports Complex_Main
begin

section \<open>The shared filter store\<close>

text \<open>
  \<^verbatim>\<open>FilterContext\<close> holds two pieces of state: the filter selections
  (\<^verbatim>\<open>FilterOptions\<close>, four arrays of strings) and the active item.  The arrays
  are kept as lists, as the code has them; their membership is \<open>set\<close> of the list.
  \<^verbatim>\<open>setFilters\<close> and \<^verbatim>\<open>setActiveItem\<close> are React state setters: they
  replace the whole value.
\<close>

record FilterOptions =
  experienceLevels :: "string list"
  locations :: "string list"
  industries :: "string list"
  employmentTypes :: "string list"

datatype item_kind = Industry | Location | JobTitle | ExperienceLevel

text \<open>\<^verbatim>\<open>type\<close> and \<^verbatim>\<open>value\<close> of the active item; \<open>None\<close> is \<^verbatim>\<open>null\<close>.\<close>

record ActiveItem =
  item_type :: "item_kind option"
  item_value :: "string option"

record Store =
  filters :: FilterOptions
  activeItem :: ActiveItem

definition setFilters :: "FilterOptions \<Rightarrow> Store \<Rightarrow> Store" where
  "setFilters next st = st\<lparr>filters := next\<rparr>"

definition setActiveItem :: "ActiveItem \<Rightarrow> Store \<Rightarrow> Store" where
  "setActiveItem next st = st\<lparr>activeItem := next\<rparr>"

definition no_item :: ActiveItem where
  "no_item = \<lparr>item_type = None, item_value = None\<rparr>"

definition item :: "item_kind \<Rightarrow> string \<Rightarrow> ActiveItem" where
  "item k v = \<lparr>item_type = Some k, item_value = Some v\<rparr>"

definition initial_store :: Store where
  "initial_store =
     \<lparr>filters = \<lparr>experienceLevels = [], locations = [], industries = [], employmentTypes = []\<rparr>,
      activeItem = no_item\<rparr>"

subsection \<open>Array helpers of the handlers\<close>

text \<open>\<^verbatim>\<open>xs.includes(x)\<close>, \<^verbatim>\<open>xs.filter(y => y !== x)\<close> and \<^verbatim>\<open>[...xs, x]\<close>.\<close>

definition js_includes :: "string list \<Rightarrow> string \<Rightarrow> bool" where
  "js_includes xs x = (x \<in> set xs)"

definition without :: "string list \<Rightarrow> string \<Rightarrow> string list" where
  "without xs x = filter (\<lambda>y. y \<noteq> x) xs"

definition appended :: "string list \<Rightarrow> string \<Rightarrow> string list" where
  "appended xs x = xs @ [x]"

section \<open>Click handlers\<close>

text \<open>
  Every handler is given as the store it leaves behind.  A handler reads the
  \<^verbatim>\<open>filters\<close> and \<^verbatim>\<open>activeItem\<close> of the render that bound it
  (\<^verbatim>\<open>useFilterContext()\<close>).  The handlers written in JSX are bound at every render;
  so are the d3 handlers of HiringPulseChart and JobPostingsTimeLine, whose drawing effects
  depend on \<^verbatim>\<open>aggregatedData\<close>, a new object at every render.  These handlers read
  the store as it is at the click.  The overlay of the ridgeline and the legend of the bar
  chart are bound by drawing effects whose dependencies
  (\<^verbatim>\<open>[data, isLoading, showTopTitles, redrawTrigger]\<close> and
  \<^verbatim>\<open>[data, isLoading, activeIndustries]\<close>) do not list the filters: their handlers
  read the filters of the last drawing, which can be older than the store.  Those filters
  are an argument of the handler, as is the component-local state
  (\<^verbatim>\<open>activeIndustries\<close>, \<^verbatim>\<open>selectedLevels\<close>) where the store update
  reads it.  Tooltips, d3 styling and the other local state are not part of the shared
  store.
\<close>

subsection \<open>HiringPulseChart\<close>

text \<open>
  The click handlers of the heatmap cells, the bubbles and the trend points are the same
  code: the experience levels become the clicked level alone, or nothing.
\<close>

definition hiringPulse_click :: "string \<Rightarrow> Store \<Rightarrow> Store" where
  "hiringPulse_click level st =
     (let newFilters = filters st;
          newFilters' =
            (if \<not> js_includes (experienceLevels newFilters) level
             then newFilters\<lparr>experienceLevels := [level]\<rparr>
             else newFilters\<lparr>experienceLevels := []\<rparr>)
      in setFilters newFilters' st)"

subsection \<open>JobPostingsTimeLine\<close>

text \<open>The line, the data point and the filter-menu entry: toggle the level in the filters.\<close>

definition timeline_toggle :: "string \<Rightarrow> Store \<Rightarrow> Store" where
  "timeline_toggle level st =
     (let newFilters = filters st;
          newFilters' =
            (if js_includes (experienceLevels newFilters) level
             then newFilters\<lparr>experienceLevels := without (experienceLevels newFilters) level\<rparr>
             else newFilters\<lparr>experienceLevels := appended (experienceLevels newFilters) level\<rparr>)
      in setFilters newFilters' st)"

text \<open>The legend entry toggles the level and makes it the active item.\<close>

definition timeline_legend_click :: "string \<Rightarrow> Store \<Rightarrow> Store" where
  "timeline_legend_click experienceLevel st =
     setActiveItem (item ExperienceLevel experienceLevel) (timeline_toggle experienceLevel st)"

text \<open>The buttons of the filter menu.\<close>

definition timeline_select_all :: "string list \<Rightarrow> Store \<Rightarrow> Store" where
  "timeline_select_all data_experienceLevels st =
     setFilters ((filters st)\<lparr>experienceLevels := data_experienceLevels\<rparr>) st"

definition timeline_clear :: "Store \<Rightarrow> Store" where
  "timeline_clear st = setFilters ((filters st)\<lparr>experienceLevels := []\<rparr>) st"

text \<open>
  The repository holds a second copy of the component.  Its lines and legend entries are
  as above; it keeps \<^verbatim>\<open>selectedLevels\<close> locally and copies them into the filters
  in an effect, when they differ.  The effect runs when \<^verbatim>\<open>selectedLevels\<close> or
  \<^verbatim>\<open>isLoading\<close> change.
\<close>

definition timeline_sync :: "bool \<Rightarrow> string list \<Rightarrow> Store \<Rightarrow> Store" where
  "timeline_sync isLoading selectedLevels st =
     (if isLoading then st
      else
        let currentFilterLevels = experienceLevels (filters st);
            needsUpdate =
              (length selectedLevels \<noteq> length currentFilterLevels
               \<or> list_ex (\<lambda>level. \<not> js_includes currentFilterLevels level) selectedLevels)
        in if needsUpdate
           then setFilters ((filters st)\<lparr>experienceLevels :=
                  (if length selectedLevels > 0 then selectedLevels else [])\<rparr>) st
           else st)"

text \<open>
  The data point of the second copy does not call \<^verbatim>\<open>setFilters\<close>: it adds the
  level to \<^verbatim>\<open>selectedLevels\<close> or removes it, and makes the level the active item.
  The new \<^verbatim>\<open>selectedLevels\<close> start the effect above.  The chart is drawn, so
  nothing is loading.
\<close>

definition timeline2_point_click :: "string list \<Rightarrow> string \<Rightarrow> Store \<Rightarrow> Store" where
  "timeline2_point_click selectedLevels experienceLevel st =
     (let isAlreadySelected = js_includes selectedLevels experienceLevel;
          selectedLevels' =
            (if isAlreadySelected
             then (if length selectedLevels = 1 then []
                   else without selectedLevels experienceLevel)
             else appended selectedLevels experienceLevel)
      in timeline_sync False selectedLevels'
           (setActiveItem (item ExperienceLevel experienceLevel) st))"

subsection \<open>SalaryLocationIndustryBarChart\<close>

text \<open>
  The legend entry toggles the industry in the filters of the last drawing
  (\<open>filters_drawn\<close>) and stores the result.
\<close>

definition bar_legend_click :: "FilterOptions \<Rightarrow> string \<Rightarrow> Store \<Rightarrow> Store" where
  "bar_legend_click filters_drawn d st =
     (if js_includes (industries filters_drawn) d
      then setFilters (filters_drawn\<lparr>industries := without (industries filters_drawn) d\<rparr>) st
      else setFilters (filters_drawn\<lparr>industries := appended (industries filters_drawn) d\<rparr>) st)"

text \<open>
  \<^verbatim>\<open>toggleIndustry\<close> and the badge's \<^verbatim>\<open>onClick\<close> also move the active item:
  to the industry when it is newly added to the local \<^verbatim>\<open>activeIndustries\<close>, to
  nothing when it was the active item.
\<close>

definition toggleIndustry :: "string list \<Rightarrow> string \<Rightarrow> Store \<Rightarrow> Store" where
  "toggleIndustry activeIndustries industry st =
     (let newActiveIndustries =
            (if js_includes activeIndustries industry then without activeIndustries industry
             else appended activeIndustries industry);
          newIndustryFilters =
            (if js_includes (industries (filters st)) industry
             then without (industries (filters st)) industry
             else appended (industries (filters st)) industry);
          st' = setFilters ((filters st)\<lparr>industries := newIndustryFilters\<rparr>) st
      in if js_includes newActiveIndustries industry \<and> \<not> js_includes activeIndustries industry
         then setActiveItem (item Industry industry) st'
         else if item_type (activeItem st) = Some Industry
                 \<and> item_value (activeItem st) = Some industry
         then setActiveItem no_item st'
         else st')"

definition bar_badge_click :: "string list \<Rightarrow> string \<Rightarrow> Store \<Rightarrow> Store" where
  "bar_badge_click activeIndustries industry st =
     (let newActiveIndustries =
            (if js_includes activeIndustries industry then without activeIndustries industry
             else appended activeIndustries industry);
          st' =
            (if js_includes (industries (filters st)) industry
             then setFilters ((filters st)\<lparr>industries := without (industries (filters st)) industry\<rparr>) st
             else setFilters ((filters st)\<lparr>industries := appended (industries (filters st)) industry\<rparr>) st)
      in if js_includes newActiveIndustries industry \<and> \<not> js_includes activeIndustries industry
         then setActiveItem (item Industry industry) st'
         else if item_type (activeItem st) = Some Industry
                 \<and> item_value (activeItem st) = Some industry
         then setActiveItem no_item st'
         else st')"

definition bar_select_all :: "string list \<Rightarrow> Store \<Rightarrow> Store" where
  "bar_select_all data_industries st =
     setFilters ((filters st)\<lparr>industries := data_industries\<rparr>) st"

definition bar_clear :: "Store \<Rightarrow> Store" where
  "bar_clear st = setActiveItem no_item (setFilters ((filters st)\<lparr>industries := []\<rparr>) st)"

subsection \<open>SalaryJobTitleRidgeline\<close>

text \<open>
  The overlay of a job title toggles the title in \<^verbatim>\<open>industries\<close> (the filters have
  no field for job titles) of the filters of the last drawing (\<open>filters_drawn\<close>), stores
  the result and makes the title the active item.
\<close>

definition ridgeline_click :: "FilterOptions \<Rightarrow> string \<Rightarrow> Store \<Rightarrow> Store" where
  "ridgeline_click filters_drawn jobTitle st =
     (let newFilters = filters_drawn;
          newFilters' =
            (if js_includes (industries filters_drawn) jobTitle
             then newFilters\<lparr>industries := without (industries newFilters) jobTitle\<rparr>
             else newFilters\<lparr>industries := appended (industries newFilters) jobTitle\<rparr>)
      in setActiveItem (item JobTitle jobTitle) (setFilters newFilters' st))"

subsection \<open>The interactive elements\<close>

text \<open>
  The elements of the four charts that carry pointer handlers.  The bars of the bar chart
  have hover handlers and no click handler; legend entries, badges and menu entries have a
  click handler only.
\<close>

datatype element =
    BarRect | BarLegendEntry | BarBadge
  | RidgelineOverlay
  | HeatmapCell | Bubble | TrendPoint
  | TimelineLine | TimelinePoint | TimelineLegendEntry | TimelineMenuItem

text \<open>
  What a click handler holds besides the store: the filters of the last drawing (read by
  the overlay of the ridgeline and the legend of the bar chart), the local
  \<^verbatim>\<open>activeIndustries\<close> of the bar chart, and, for the data point of the timeline,
  which copy of the component it belongs to and the local \<^verbatim>\<open>selectedLevels\<close> of
  the second copy.
\<close>

record click_env =
  env_filters_drawn :: FilterOptions
  env_activeIndustries :: "string list"
  env_second_copy :: bool
  env_selectedLevels :: "string list"

text \<open>
  \<open>on_click e env v st\<close>: the store after a click on an element \<open>e\<close> whose category
  value is \<open>v\<close>.
\<close>

fun on_click :: "element \<Rightarrow> click_env \<Rightarrow> string \<Rightarrow> Store \<Rightarrow> Store" where
  "on_click BarRect env v st = st"
| "on_click BarLegendEntry env v st = bar_legend_click (env_filters_drawn env) v st"
| "on_click BarBadge env v st = bar_badge_click (env_activeIndustries env) v st"
| "on_click RidgelineOverlay env v st = ridgeline_click (env_filters_drawn env) v st"
| "on_click HeatmapCell env v st = hiringPulse_click v st"
| "on_click Bubble env v st = hiringPulse_click v st"
| "on_click TrendPoint env v st = hiringPulse_click v st"
| "on_click TimelineLine env v st = timeline_toggle v st"
| "on_click TimelinePoint env v st =
     (if env_second_copy env then timeline2_point_click (env_selectedLevels env) v st
      else timeline_toggle v st)"
| "on_click TimelineLegendEntry env v st = timeline_legend_click v st"
| "on_click TimelineMenuItem env v st = timeline_toggle v st"

text \<open>The four fields of the filters, and the field an element's click writes.\<close>

datatype field = ExperienceLevels | Locations | Industries | EmploymentTypes

fun field_value :: "field \<Rightarrow> FilterOptions \<Rightarrow> string list" where
  "field_value ExperienceLevels f = experienceLevels f"
| "field_value Locations f = locations f"
| "field_value Industries f = industries f"
| "field_value EmploymentTypes f = employmentTypes f"

fun field_of :: "element \<Rightarrow> field" where
  "field_of BarRect = Industries"
| "field_of BarLegendEntry = Industries"
| "field_of BarBadge = Industries"
| "field_of RidgelineOverlay = Industries"
| "field_of HeatmapCell = ExperienceLevels"
| "field_of Bubble = ExperienceLevels"
| "field_of TrendPoint = ExperienceLevels"
| "field_of TimelineLine = ExperienceLevels"
| "field_of TimelinePoint = ExperienceLevels"
| "field_of TimelineLegendEntry = ExperienceLevels"
| "field_of TimelineMenuItem = ExperienceLevels"

text \<open>
  Every place of the four components that calls \<^verbatim>\<open>setFilters\<close>, with the
  arguments it reads: the clicks above, \<^verbatim>\<open>toggleIndustry\<close>, the
  \<^verbatim>\<open>Select All\<close> and \<^verbatim>\<open>Clear\<close> buttons, and the synchronising effect.
\<close>

datatype handler =
    Click element click_env string
  | ToggleIndustry "string list" string
  | BarSelectAll "string list"
  | BarClear
  | TimelineSelectAll "string list"
  | TimelineClear
  | TimelineSync bool "string list"

fun run :: "handler \<Rightarrow> Store \<Rightarrow> Store" where
  "run (Click e env v) st = on_click e env v st"
| "run (ToggleIndustry ai v) st = toggleIndustry ai v st"
| "run (BarSelectAll xs) st = bar_select_all xs st"
| "run BarClear st = bar_clear st"
| "run (TimelineSelectAll xs) st = timeline_select_all xs st"
| "run TimelineClear st = timeline_clear st"
| "run (TimelineSync l xs) st = timeline_sync l xs st"

fun written :: "handler \<Rightarrow> field" where
  "written (Click e env v) = field_of e"
| "written (ToggleIndustry ai v) = Industries"
| "written (BarSelectAll xs) = Industries"
| "written BarClear = Industries"
| "written (TimelineSelectAll xs) = ExperienceLevels"
| "written TimelineClear = ExperienceLevels"
| "written (TimelineSync l xs) = ExperienceLevels"

text \<open>
  The handlers that read the store as it is: all but the two that read the filters of the
  last drawing.  For those two, the drawing is current when its filters are the store's.
\<close>

fun drawing_current :: "handler \<Rightarrow> Store \<Rightarrow> bool" where
  "drawing_current (Click RidgelineOverlay env v) st = (env_filters_drawn env = filters st)"
| "drawing_current (Click BarLegendEntry env v) st = (env_filters_drawn env = filters st)"
| "drawing_current _ st = True"

text \<open>
  The elements whose click handler adds one value to the store's filters or removes it:
  the badge of the bar chart, and the line, legend entry, menu entry and (in the first
  copy) data point of the timeline.
\<close>

fun toggles :: "element \<Rightarrow> click_env \<Rightarrow> bool" where
  "toggles BarBadge env = True"
| "toggles TimelineLine env = True"
| "toggles TimelinePoint env = (\<not> env_second_copy env)"
| "toggles TimelineLegendEntry env = True"
| "toggles TimelineMenuItem env = True"
| "toggles _ env = False"

text \<open>The elements of HiringPulseChart.\<close>

fun hiring_pulse :: "element \<Rightarrow> bool" where
  "hiring_pulse HeatmapCell = True"
| "hiring_pulse Bubble = True"
| "hiring_pulse TrendPoint = True"
| "hiring_pulse _ = False"

section \<open>Hover handlers\<close>

text \<open>
  \<^verbatim>\<open>mouseover\<close> and \<^verbatim>\<open>mouseout\<close>.  The handlers of HiringPulseChart restyle
  the element and move the tooltip; they never call \<^verbatim>\<open>setActiveItem\<close>.  Only the
  data point of the timeline looks at its \<^verbatim>\<open>selected\<close> class before it resets the
  active item; \<open>selected\<close> is that class.
\<close>

fun on_mouseover :: "element \<Rightarrow> string \<Rightarrow> Store \<Rightarrow> Store" where
  "on_mouseover BarRect v st = setActiveItem (item Industry v) st"
| "on_mouseover RidgelineOverlay v st = setActiveItem (item JobTitle v) st"
| "on_mouseover TimelineLine v st = setActiveItem (item ExperienceLevel v) st"
| "on_mouseover TimelinePoint v st = setActiveItem (item ExperienceLevel v) st"
| "on_mouseover _ v st = st"

fun on_mouseout :: "element \<Rightarrow> bool \<Rightarrow> Store \<Rightarrow> Store" where
  "on_mouseout BarRect selected st = setActiveItem no_item st"
| "on_mouseout RidgelineOverlay selected st = setActiveItem no_item st"
| "on_mouseout TimelineLine selected st = setActiveItem no_item st"
| "on_mouseout TimelinePoint selected st =
     (if \<not> selected then setActiveItem no_item st else st)"
| "on_mouseout _ selected st = st"

text \<open>The elements whose hover handlers write the active item, and the kind they write.\<close>

fun hover_kind :: "element \<Rightarrow> item_kind option" where
  "hover_kind BarRect = Some Industry"
| "hover_kind RidgelineOverlay = Some JobTitle"
| "hover_kind TimelineLine = Some ExperienceLevel"
| "hover_kind TimelinePoint = Some ExperienceLevel"
| "hover_kind _ = None"

section \<open>Numbers and arrays of numbers\<close>




text \<open>\<^verbatim>\<open>a || b\<close> on numbers: \<^verbatim>\<open>undefined\<close> and \<^verbatim>\<open>0\<close> are falsy.\<close>

definition js_or :: "real option \<Rightarrow> real \<Rightarrow> real" where
  "js_or a b = (case a of None \<Rightarrow> b | Some x \<Rightarrow> if x = 0 then b else x)"

text \<open>\<^verbatim>\<open>xs[i]\<close>: \<^verbatim>\<open>undefined\<close> out of range.\<close>

definition at_index :: "real list \<Rightarrow> int \<Rightarrow> real option" where
  "at_index xs i = (if 0 \<le> i \<and> i < int (length xs) then Some (xs ! nat i) else None)"

text \<open>\<^verbatim>\<open>Math.round\<close>: the nearest integer, a tie going up.\<close>

definition Math_round :: "real \<Rightarrow> real" where
  "Math_round x = of_int \<lfloor>x + 1 / 2\<rfloor>"

subsection \<open>Functions of d3-array\<close>

text \<open>
  The library is not part of the repository; these are its functions as the components
  use them.  \<^verbatim>\<open>d3.quantile(values, p)\<close> interpolates linearly between the order
  statistics around position \<^verbatim>\<open>(n - 1) * p\<close>; \<^verbatim>\<open>d3.median\<close> is the quantile at
  one half; both give \<^verbatim>\<open>undefined\<close> on an empty array.
\<close>

definition d3_quantile :: "real list \<Rightarrow> real \<Rightarrow> real option" where
  "d3_quantile vs p =
     (let sorted_vs = sort vs; n = length sorted_vs in
      if n = 0 then None
      else if p \<le> 0 \<or> n < 2 then Some (sorted_vs ! 0)
      else if p \<ge> 1 then Some (sorted_vs ! (n - 1))
      else
        let i = real (n - 1) * p;
            i0 = nat \<lfloor>i\<rfloor>;
            value0 = sorted_vs ! i0;
            value1 = sorted_vs ! (i0 + 1)
        in Some (value0 + (value1 - value0) * (i - real i0)))"

definition d3_median :: "real list \<Rightarrow> real option" where
  "d3_median vs = d3_quantile vs (1 / 2)"



section \<open>SalaryJobTitleRidgeline: statistics of a job title\<close>

text \<open>
  One entry of \<^verbatim>\<open>jobTitlesByMedian\<close>.  The fields \<^verbatim>\<open>min\<close>, \<^verbatim>\<open>max\<close> and
  \<^verbatim>\<open>values\<close> are \<open>min_v\<close>, \<open>max_v\<close> and \<open>vals\<close> here.
\<close>

record JobTitleStats =
  title :: string
  median :: real
  count :: nat
  min_v :: real
  max_v :: real
  q1 :: real
  q3 :: real
  rangeSize :: real
  vals :: "real list"

definition jobTitleStats :: "string \<Rightarrow> real list \<Rightarrow> JobTitleStats" where
  "jobTitleStats t range_values =
     (let sortedValues = sort range_values;
          n = length sortedValues;
          median0 = js_or (d3_median sortedValues) (js_or (at_index sortedValues 0) 0);
          min0 = js_or (at_index sortedValues 0) 0;
          max0 = js_or (at_index sortedValues (int n - 1)) 0;
          min1 = (if n = 1 then median0 * (9 / 10) else min0);
          max1 = (if n = 1 then median0 * (11 / 10) else max0);
          q1_0 = (if n > 2 then js_or (d3_quantile sortedValues (1 / 4)) min1
                  else min1 + (median0 - min1) / 2);
          q3_0 = (if n > 2 then js_or (d3_quantile sortedValues (3 / 4)) max1
                  else median0 + (max1 - median0) / 2)
      in \<lparr>title = t, median = median0, count = length range_values,
          min_v = min1, max_v = max1, q1 = q1_0, q3 = q3_0,
          rangeSize = max1 - min1, vals = range_values\<rparr>)"


text \<open>The median of a non-empty list of numbers, as statistics defines it.\<close>

definition exact_median :: "real list \<Rightarrow> real" where
  "exact_median vs =
     (let s = sort vs; n = length s in
      if odd n then s ! (n div 2) else (s ! (n div 2 - 1) + s ! (n div 2)) / 2)"

subsection \<open>The density display\<close>








section \<open>The data of the charts\<close>

text \<open>
  The payload types (\<^verbatim>\<open>TimeLineData\<close>, \<^verbatim>\<open>GroupedBarData\<close>,
  \<^verbatim>\<open>RidgelineData\<close>) are declared outside the four components; the fields are
  those the components read.  A \<^verbatim>\<open>Record<string, T>\<close> is a list of key and value
  with each key once, looked up with \<open>map_of\<close>; a payload that is \<^verbatim>\<open>undefined\<close> is
  \<open>None\<close>.  The fields are arrays and objects as the types say, so a test such as
  \<^verbatim>\<open>!data.industries\<close> is false on every payload: an empty array is truthy.
\<close>

record TimeLineData =
  tl_timePoints :: "string list"
  tl_experienceLevels :: "string list"
  tl_data :: "(string \<times> (string \<times> real) list) list"




text \<open>\<^verbatim>\<open>series[timePoint] || 0\<close>.\<close>

definition count_at :: "(string \<times> real) list \<Rightarrow> string \<Rightarrow> real" where
  "count_at series timePoint = js_or (map_of series timePoint) 0"

section \<open>HiringPulseChart: aggregates\<close>

record HiringAggregates =
  byExperience :: "string \<rightharpoonup> real"
  byIndustry :: "string \<rightharpoonup> real"
  byExperienceAndIndustry :: "string \<rightharpoonup> (string \<rightharpoonup> real)"
  timeSeries :: "string \<rightharpoonup> (string \<rightharpoonup> real)"
  ha_experienceLevels :: "string list"
  ha_industries :: "string list"
  ha_timePoints :: "string list"

definition hp_industries :: "string list" where
  "hp_industries = [''Technology'', ''Healthcare'', ''Finance'', ''Education'', ''Retail'']"

text \<open>
  The first loop, for one level: the sum over the time points of the level's series
  (\<^verbatim>\<open>Object.keys(data.data[level] || {})\<close>) and the copy of the series.
\<close>

definition sumLevel :: "(string \<times> real) list \<Rightarrow> real \<times> (string \<rightharpoonup> real)" where
  "sumLevel series =
     fold (\<lambda>timePoint (total, ts).
             let count = count_at series timePoint in (total + count, ts(timePoint \<mapsto> count)))
       (map fst series) (0, Map.empty)"

definition initLevels ::
  "TimeLineData \<Rightarrow> (string \<rightharpoonup> real) \<times> (string \<rightharpoonup> (string \<rightharpoonup> real)) \<times> (string \<rightharpoonup> (string \<rightharpoonup> real))" where
  "initLevels d =
     fold (\<lambda>level (expLevelTotals, industryData, timeData).
             let series = (case map_of (tl_data d) level of None \<Rightarrow> [] | Some sr \<Rightarrow> sr);
                 (total, ts) = sumLevel series
             in (expLevelTotals(level \<mapsto> total), industryData(level \<mapsto> Map.empty),
                 timeData(level \<mapsto> ts)))
       (tl_experienceLevels d) (Map.empty, Map.empty, Map.empty)"

text \<open>
  The second loop draws a weight with \<^verbatim>\<open>Math.random()\<close> for every industry and level.
  \<open>rnd k\<close> is the value of the \<open>k\<close>-th call (a number from 0 up to, not including, 1); the
  loop counts the calls.  \<^verbatim>\<open>expLevelTotals[level]\<close> and
  \<^verbatim>\<open>industryData[level]\<close> were set for every level by the first loop.
\<close>

definition distributeIndustry ::
  "(nat \<Rightarrow> real) \<Rightarrow> (string \<rightharpoonup> real) \<Rightarrow> string list \<Rightarrow> string
     \<Rightarrow> nat \<times> (string \<rightharpoonup> (string \<rightharpoonup> real)) \<times> (string \<rightharpoonup> real)
     \<Rightarrow> nat \<times> (string \<rightharpoonup> (string \<rightharpoonup> real)) \<times> (string \<rightharpoonup> real)" where
  "distributeIndustry rnd expLevelTotals levels industry st =
     (case st of (calls0, industryData0, industryTotals0) \<Rightarrow>
        fold (\<lambda>level (calls, industryData, industryTotals).
                let industryWeight = rnd calls * (1 / 2) + 1 / 2;
                    total = (case expLevelTotals level of None \<Rightarrow> 0 | Some x \<Rightarrow> x);
                    count = Math_round (total * industryWeight / real (length hp_industries));
                    row = (case industryData level of None \<Rightarrow> Map.empty | Some r \<Rightarrow> r);
                    sofar = (case industryTotals industry of None \<Rightarrow> 0 | Some x \<Rightarrow> x)
                in (calls + 1, industryData(level \<mapsto> row(industry \<mapsto> count)),
                    industryTotals(industry \<mapsto> sofar + count)))
          levels (calls0, industryData0, industryTotals0(industry \<mapsto> 0)))"

definition HiringPulseChart_getAggregatedData ::
  "(nat \<Rightarrow> real) \<Rightarrow> TimeLineData option \<Rightarrow> HiringAggregates option" where
  "HiringPulseChart_getAggregatedData rnd data =
     (case data of
        None \<Rightarrow> None
      | Some d \<Rightarrow>
          (case initLevels d of (expLevelTotals, industryData, timeData) \<Rightarrow>
            (case fold (distributeIndustry rnd expLevelTotals (tl_experienceLevels d))
                    hp_industries (0, industryData, Map.empty) of
               (calls, industryData', industryTotals) \<Rightarrow>
                 Some \<lparr>byExperience = expLevelTotals, byIndustry = industryTotals,
                       byExperienceAndIndustry = industryData', timeSeries = timeData,
                       ha_experienceLevels = tl_experienceLevels d,
                       ha_industries = hp_industries,
                       ha_timePoints = tl_timePoints d\<rparr>)))"


section \<open>JobPostingsTimeLine: aggregation by week and quarter\<close>



















section \<open>SalaryLocationIndustryBarChart and SalaryJobTitleRidgeline: what is rendered\<close>










section \<open>Parsing the labels of the time axis\<close>

text \<open>
  \<^verbatim>\<open>parseDate\<close> is the same function in HiringPulseChart and JobPostingsTimeLine.  It
  rests on the JavaScript library: \<^verbatim>\<open>Number\<close>, \<^verbatim>\<open>parseInt\<close> and the
  \<^verbatim>\<open>Date\<close> constructors, which are parameters here.  A number that is
  \<^verbatim>\<open>NaN\<close> is \<open>None\<close>; a date is its time value or the Invalid Date.
\<close>

datatype jsdate = DateAt int | InvalidDate

record js_lib =
  Number_of :: "string \<Rightarrow> real option"
  parseInt_of :: "string option \<Rightarrow> real option"
  Date_year_month :: "real option \<Rightarrow> real option \<Rightarrow> jsdate"
  Date_string :: "string \<Rightarrow> jsdate"
  Date_now :: jsdate

text \<open>\<^verbatim>\<open>s.split(c)\<close> for a separator of one character, and \<^verbatim>\<open>xs[i]\<close>.\<close>

fun split_on :: "char \<Rightarrow> string \<Rightarrow> string list" where
  "split_on c [] = [[]]"
| "split_on c (x # xs) =
     (if x = c then [] # split_on c xs
      else (case split_on c xs of [] \<Rightarrow> [[x]] | p # ps \<Rightarrow> (x # p) # ps))"

definition elem :: "'a list \<Rightarrow> nat \<Rightarrow> 'a option" where
  "elem xs i = (if i < length xs then Some (xs ! i) else None)"

text \<open>
  How an expression completes: with a value, or by throwing.  \<^verbatim>\<open>new Date(s)\<close>
  completes with a value for every string: for a string it cannot read, the value is the
  Invalid Date.
\<close>

datatype 'a completion = Normal 'a | Throw

definition new_Date :: "js_lib \<Rightarrow> string \<Rightarrow> jsdate completion" where
  "new_Date L dateString = Normal (Date_string L dateString)"

text \<open>The date \<^verbatim>\<open>parseDate\<close> returns and the lines it writes with \<^verbatim>\<open>console.error\<close>.\<close>

definition parseDate :: "js_lib \<Rightarrow> string \<Rightarrow> jsdate \<times> string list" where
  "parseDate L dateString =
     (if CHR ''-'' \<in> set dateString then
        (let parts = map (Number_of L) (split_on CHR ''-'' dateString);
             year = (case elem parts 0 of None \<Rightarrow> None | Some n \<Rightarrow> n);
             month = (case elem parts 1 of None \<Rightarrow> None | Some n \<Rightarrow> n)
         in (Date_year_month L year (map_option (\<lambda>m. m - 1) month), []))
      else if CHR ''Q'' \<in> set dateString then
        (let parts = split_on CHR '' '' dateString;
             quarter = (case elem parts 0 of None \<Rightarrow> [] | Some q \<Rightarrow> q);
             year = elem parts 1;
             quarterNum = parseInt_of L (Some (drop 1 quarter));
             month = map_option (\<lambda>n. (n - 1) * 3) quarterNum
         in (Date_year_month L (parseInt_of L year) month, []))
      else
        (case new_Date L dateString of
           Normal date \<Rightarrow> (date, [])
         | Throw \<Rightarrow> (Date_now L, [''Error parsing date: '' @ dateString])))"

text \<open>
  A library for the examples: it reads ``Jan 01'' and no other string, and the current
  date is another one.
\<close>

definition strict_lib :: js_lib where
  "strict_lib =
     \<lparr>Number_of = (\<lambda>s. None), parseInt_of = (\<lambda>s. None),
      Date_year_month = (\<lambda>year month. InvalidDate),
      Date_string = (\<lambda>s. if s = ''Jan 01'' then DateAt 0 else InvalidDate),
      Date_now = DateAt 1000\<rparr>"

text \<open>Two sequences of random draws, and a payload without experience levels.\<close>

definition draws_low :: "nat \<Rightarrow> real" where
  "draws_low calls = 0"

definition draws_half :: "nat \<Rightarrow> real" where
  "draws_half calls = 1 / 2"






text \<open>
  Example data: two days of one week of January 2023, with 4 and 6 postings for one
  level, and a library that reads both days as the second and third day of a year that
  starts on a Sunday.
\<close>

definition two_days :: TimeLineData where
  "two_days =
     \<lparr>tl_timePoints = [''2023-01-02'', ''2023-01-03''],
      tl_experienceLevels = [''Senior-level''],
      tl_data = [(''Senior-level'', [(''2023-01-02'', 4), (''2023-01-03'', 6)])]\<rparr>"



text \<open>A store with two experience levels selected, for the examples below.\<close>

definition two_levels :: Store where
  "two_levels = initial_store\<lparr>filters :=
     (filters initial_store)\<lparr>experienceLevels := [''Entry-level'', ''Senior-level'']\<rparr>\<rparr>"

text \<open>
  A handler of the first copy of the timeline whose chart was drawn with the filters of
  \<open>two_levels\<close>; and a handler whose chart was last drawn with the initial, empty
  filters, before any other chart wrote to the store.
\<close>

definition env_two_levels :: click_env where
  "env_two_levels =
     \<lparr>env_filters_drawn = filters two_levels, env_activeIndustries = [],
      env_second_copy = False, env_selectedLevels = []\<rparr>"

definition env_drawn_early :: click_env where
  "env_drawn_early =
     \<lparr>env_filters_drawn = filters initial_store, env_activeIndustries = [],
      env_second_copy = False, env_selectedLevels = []\<rparr>"

text \<open>A store in which the other charts have selected a value in each field.\<close>

definition all_selected :: Store where
  "all_selected =
     \<lparr>filters = \<lparr>experienceLevels = [''Senior-level''], locations = [''Berlin''],
                  industries = [''Finance''], employmentTypes = [''Full-time'']\<rparr>,
      activeItem = no_item\<rparr>"

text \<open>
  A data point of the second copy of the timeline, with all three levels of its data in
  \<^verbatim>\<open>selectedLevels\<close> (where the component starts), and a store in which one level
  is selected.
\<close>

definition env_second :: click_env where
  "env_second =
     \<lparr>env_filters_drawn = filters initial_store, env_activeIndustries = [],
      env_second_copy = True,
      env_selectedLevels = [''Entry-level'', ''Mid-level'', ''Senior-level'']\<rparr>"

definition entry_selected :: Store where
  "entry_selected = initial_store\<lparr>filters :=
     (filters initial_store)\<lparr>experienceLevels := [''Entry-level'']\<rparr>\<rparr>"

section \<open>Properties of the handlers\<close>

lemma set_without: "set (without xs x) = set xs - {x}"
  by (auto simp: without_def)

lemma set_appended: "set (appended xs x) = insert x (set xs)"
  by (simp add: appended_def)

lemma filters_setActiveItem: "filters (setActiveItem a st) = filters st"
  by (simp add: setActiveItem_def)

lemma filters_setFilters: "filters (setFilters f st) = f"
  by (simp add: setFilters_def)

lemma activeItem_setFilters: "activeItem (setFilters f st) = activeItem st"
  by (simp add: setFilters_def)

lemma activeItem_setActiveItem: "activeItem (setActiveItem a st) = a"
  by (simp add: setActiveItem_def)

lemmas store_simps =
  filters_setActiveItem filters_setFilters activeItem_setFilters activeItem_setActiveItem

lemmas click_defs =
  bar_legend_click_def bar_badge_click_def ridgeline_click_def timeline_toggle_def
  timeline_legend_click_def hiringPulse_click_def timeline2_point_click_def timeline_sync_def

lemma toggles_field:
  "toggles e env \<Longrightarrow> field_value (field_of e) (filters (on_click e env v st)) =
     (if v \<in> set (field_value (field_of e) (filters st))
      then without (field_value (field_of e) (filters st)) v
      else appended (field_value (field_of e) (filters st)) v)"
  by (cases e) (simp_all add: click_defs js_includes_def Let_def store_simps)

lemma hiring_pulse_field:
  "hiring_pulse e \<Longrightarrow> experienceLevels (filters (on_click e env v st)) =
     (if v \<in> set (experienceLevels (filters st)) then [] else [v])"
  by (cases e) (simp_all add: click_defs js_includes_def Let_def store_simps)

subsection \<open>Frame of the filter updates\<close>

text \<open>
  Every handler that calls \<^verbatim>\<open>setFilters\<close> starts from a copy of the filters it
  holds (\<^verbatim>\<open>{ ...filters }\<close>) and overwrites one field.  When the filters it holds
  are the store's, each of the three other fields of the store is left as it was.
\<close>

lemma on_click_frame:
  "drawing_current (Click e env v) st \<Longrightarrow> fld \<noteq> field_of e \<Longrightarrow>
     field_value fld (filters (on_click e env v st)) = field_value fld (filters st)"
  by (cases e; cases fld) (simp_all add: click_defs Let_def store_simps)

lemma handlers_frame:
  assumes "drawing_current h st" and "fld \<noteq> written h"
  shows "field_value fld (filters (run h st)) = field_value fld (filters st)"
proof (cases h)
  case (Click e env v)
  with assms show ?thesis by (simp add: on_click_frame)
next
  case (ToggleIndustry ai v)
  with assms(2) show ?thesis
    by (cases fld) (simp_all add: toggleIndustry_def Let_def store_simps)
next
  case (BarSelectAll xs)
  with assms(2) show ?thesis
    by (cases fld) (simp_all add: bar_select_all_def store_simps)
next
  case BarClear
  with assms(2) show ?thesis
    by (cases fld) (simp_all add: bar_clear_def store_simps)
next
  case (TimelineSelectAll xs)
  with assms(2) show ?thesis
    by (cases fld) (simp_all add: timeline_select_all_def store_simps)
next
  case TimelineClear
  with assms(2) show ?thesis
    by (cases fld) (simp_all add: timeline_clear_def store_simps)
next
  case (TimelineSync l xs)
  with assms(2) show ?thesis
    by (cases fld) (simp_all add: timeline_sync_def Let_def store_simps)
qed

text \<open>
  C10.  The claim asks that after any single mutation the three fields that are not being
  changed keep their values, so that no field is dropped.  The overlay click of the
  ridgeline spreads the \<^verbatim>\<open>filters\<close> of the last drawing, and the drawing effect
  does not run again when the filters change.  The ridgeline was drawn while the filters
  were empty; since then the other charts have selected a level, a location, an industry
  and an employment type.  A click on the overlay of ``Analyst'' stores the old, empty
  fields with the new title: the three other fields are dropped, and the selected
  industry with them.
\<close>

theorem overlay_click_reverts_other_fields:
  "filters all_selected =
     \<lparr>experienceLevels = [''Senior-level''], locations = [''Berlin''],
      industries = [''Finance''], employmentTypes = [''Full-time'']\<rparr>
   \<and> filters (run (Click RidgelineOverlay env_drawn_early ''Analyst'') all_selected) =
     \<lparr>experienceLevels = [], locations = [], industries = [''Analyst''],
      employmentTypes = []\<rparr>"
  by (simp add: all_selected_def env_drawn_early_def initial_store_def ridgeline_click_def
        js_includes_def appended_def Let_def store_simps)

text \<open>The legend of the bar chart does the same with the filters of its last drawing.\<close>

lemma legend_click_reverts_other_fields:
  "filters (run (Click BarLegendEntry env_drawn_early ''Retail'') all_selected) =
     \<lparr>experienceLevels = [], locations = [], industries = [''Retail''],
      employmentTypes = []\<rparr>"
  by (simp add: all_selected_def env_drawn_early_def initial_store_def bar_legend_click_def
        js_includes_def appended_def store_simps)

subsection \<open>Clicking twice\<close>

text \<open>
  With ``Entry-level'' and ``Senior-level'' selected, two clicks on a heatmap cell of
  ``Mid-level'' leave no level selected: the first click replaces the selection by
  ``Mid-level'' alone, the second empties it.  HiringPulseChart draws again after every
  change of the filters, so the second click reads what the first has written.
\<close>

theorem double_click_counterexample:
  "set (experienceLevels (filters
      (on_click HeatmapCell env_two_levels ''Mid-level''
        (on_click HeatmapCell env_two_levels ''Mid-level'' two_levels))))
   \<noteq> set (experienceLevels (filters two_levels))"
  by (simp add: hiringPulse_click_def js_includes_def Let_def store_simps two_levels_def
        initial_store_def)

text \<open>
  C1, as the code has it.  For the badges of the bar chart and the line, legend entry,
  menu entry and (in the first copy of the component) data point of the timeline, two
  clicks on the same category give back the membership of the field.  The elements of
  HiringPulseChart select one level at a time: after two clicks the field holds the
  clicked level alone if it was selected before, and nothing otherwise.  Nothing is said
  here of the overlay of the ridgeline, the legend of the bar chart and the data point of
  the second copy of the timeline.
\<close>

theorem double_click_restores:
  "(toggles e env \<and> toggles e env' \<longrightarrow>
      set (field_value (field_of e) (filters (on_click e env' v (on_click e env v st))))
        = set (field_value (field_of e) (filters st)))
   \<and> (hiring_pulse e \<longrightarrow>
      experienceLevels (filters (on_click e env' v (on_click e env v st)))
        = (if v \<in> set (experienceLevels (filters st)) then [v] else []))"
  by (auto simp: toggles_field hiring_pulse_field set_without set_appended)

text \<open>
  Two clicks on the legend entry of the timeline, on a data point of its first copy, on a
  badge of the bar chart, and on a heatmap cell.
\<close>

theorem double_click_restores_witness:
  "toggles TimelineLegendEntry env_two_levels
   \<and> set (field_value (field_of TimelineLegendEntry) (filters
        (on_click TimelineLegendEntry env_two_levels ''Mid-level''
          (on_click TimelineLegendEntry env_two_levels ''Mid-level'' two_levels))))
       = {''Entry-level'', ''Senior-level''}
   \<and> toggles TimelinePoint env_two_levels
   \<and> set (field_value (field_of TimelinePoint) (filters
        (on_click TimelinePoint env_two_levels ''Senior-level''
          (on_click TimelinePoint env_two_levels ''Senior-level'' two_levels))))
       = {''Entry-level'', ''Senior-level''}
   \<and> toggles BarBadge env_two_levels
   \<and> set (field_value (field_of BarBadge) (filters
        (on_click BarBadge env_two_levels ''Retail''
          (on_click BarBadge env_two_levels ''Retail'' all_selected))))
       = {''Finance''}
   \<and> hiring_pulse HeatmapCell
   \<and> experienceLevels (filters
        (on_click HeatmapCell env_two_levels ''Mid-level''
          (on_click HeatmapCell env_two_levels ''Mid-level'' two_levels)))
       = []"
  using double_click_restores [of TimelineLegendEntry env_two_levels env_two_levels
      "''Mid-level''" two_levels]
    double_click_restores [of TimelinePoint env_two_levels env_two_levels
      "''Senior-level''" two_levels]
    double_click_restores [of BarBadge env_two_levels env_two_levels "''Retail''" all_selected]
    double_click_restores [of HeatmapCell env_two_levels env_two_levels "''Mid-level''" two_levels]
  by (simp add: two_levels_def initial_store_def all_selected_def env_two_levels_def)

text \<open>
  What the three other handlers do.  A second click on an overlay of the ridgeline, bound
  by the same drawing as the first, stores the same filters again: the title stays
  added.  In the second copy of the timeline, with all levels in
  \<^verbatim>\<open>selectedLevels\<close> and ``Entry-level'' alone in the filters, a click on a data
  point of ``Mid-level'' stores the two other levels.
\<close>

lemma overlay_second_click_same_drawing:
  "filters (on_click RidgelineOverlay env v (on_click RidgelineOverlay env v st))
     = filters (on_click RidgelineOverlay env v st)"
  by (simp add: ridgeline_click_def Let_def store_simps)

lemma second_copy_point_click:
  "experienceLevels (filters (on_click TimelinePoint env_second ''Mid-level'' entry_selected))
     = [''Entry-level'', ''Senior-level'']"
  by (simp add: env_second_def entry_selected_def initial_store_def click_defs js_includes_def
        without_def Let_def store_simps)

subsection \<open>One click\<close>

text \<open>
  A click on a heatmap cell of ``Mid-level'' removes ``Entry-level'', another value of the
  same field, from the selection.
\<close>

theorem click_toggle_counterexample:
  "''Entry-level'' \<noteq> ''Mid-level''
   \<and> ''Entry-level'' \<in> set (experienceLevels (filters two_levels))
   \<and> ''Entry-level'' \<notin> set (experienceLevels (filters
         (on_click HeatmapCell env_two_levels ''Mid-level'' two_levels)))"
  by (simp add: hiringPulse_click_def js_includes_def Let_def store_simps two_levels_def
        initial_store_def)

text \<open>
  C2, as the code has it.  A click on a badge of the bar chart, or on a line, legend
  entry, menu entry or (in the first copy of the component) data point of the timeline,
  adds the element's value to its field of the store if absent and removes it if present,
  and changes no other value of the field.  A click on an element of HiringPulseChart
  replaces the experience levels by the clicked level alone if it was absent, and by
  nothing if it was present.  The bars of the bar chart have no click handler.  Nothing is
  said here of the overlay of the ridgeline, the legend of the bar chart and the data
  point of the second copy of the timeline.
\<close>

theorem click_toggles_membership:
  "(toggles e env \<longrightarrow>
      set (field_value (field_of e) (filters (on_click e env v st)))
        = (if v \<in> set (field_value (field_of e) (filters st))
           then set (field_value (field_of e) (filters st)) - {v}
           else insert v (set (field_value (field_of e) (filters st)))))
   \<and> (hiring_pulse e \<longrightarrow>
      experienceLevels (filters (on_click e env v st))
        = (if v \<in> set (experienceLevels (filters st)) then [] else [v]))
   \<and> filters (on_click BarRect env v st) = filters st"
  by (simp add: toggles_field hiring_pulse_field set_without set_appended)

text \<open>
  Clicks on the line of the timeline, on a data point of its first copy, on a badge of the
  bar chart and on a bubble.
\<close>

theorem click_toggles_membership_witness:
  "toggles TimelineLine env_two_levels
   \<and> set (field_value (field_of TimelineLine) (filters
        (on_click TimelineLine env_two_levels ''Mid-level'' two_levels)))
       = {''Mid-level'', ''Entry-level'', ''Senior-level''}
   \<and> set (field_value (field_of TimelineLine) (filters
        (on_click TimelineLine env_two_levels ''Entry-level'' two_levels)))
       = {''Senior-level''}
   \<and> toggles TimelinePoint env_two_levels
   \<and> set (field_value (field_of TimelinePoint) (filters
        (on_click TimelinePoint env_two_levels ''Entry-level'' two_levels)))
       = {''Senior-level''}
   \<and> toggles BarBadge env_two_levels
   \<and> set (field_value (field_of BarBadge) (filters
        (on_click BarBadge env_two_levels ''Retail'' all_selected)))
       = {''Retail'', ''Finance''}
   \<and> hiring_pulse Bubble
   \<and> experienceLevels (filters (on_click Bubble env_two_levels ''Mid-level'' two_levels))
       = [''Mid-level'']"
  using click_toggles_membership [of TimelineLine env_two_levels "''Mid-level''" two_levels]
    click_toggles_membership [of TimelineLine env_two_levels "''Entry-level''" two_levels]
    click_toggles_membership [of TimelinePoint env_two_levels "''Entry-level''" two_levels]
    click_toggles_membership [of BarBadge env_two_levels "''Retail''" all_selected]
    click_toggles_membership [of Bubble env_two_levels "''Mid-level''" two_levels]
  by (simp add: two_levels_def initial_store_def all_selected_def env_two_levels_def)

subsection \<open>Hovering\<close>

text \<open>
  Pointer-enter on a heatmap cell of ``Senior-level'' leaves the active item as it was: it
  does not become the experience level ``Senior-level''.
\<close>

theorem hover_counterexample:
  "activeItem (on_mouseover HeatmapCell ''Senior-level'' initial_store)
     \<noteq> item ExperienceLevel ''Senior-level''"
  by (simp add: initial_store_def no_item_def item_def)

text \<open>
  C3, as the code has it.  On the bars of the bar chart, the overlays of the ridgeline and
  the lines and data points of the timeline, pointer-enter makes the element's category
  the active item (industry, job title, experience level) and pointer-leave resets it to
  nothing; a data point of the timeline in the selected state keeps the active item, the
  other elements reset it also when selected.  The elements of HiringPulseChart, and the
  legend entries, badges and menu entries, leave the store alone on both events.
\<close>

theorem hover_active_item:
  "(hover_kind e = Some k \<longrightarrow>
      activeItem (on_mouseover e v st) = item k v
      \<and> activeItem (on_mouseout e False st) = no_item
      \<and> activeItem (on_mouseout e True st)
          = (if e = TimelinePoint then activeItem st else no_item))
   \<and> (hover_kind e = None \<longrightarrow>
      on_mouseover e v st = st \<and> on_mouseout e selected st = st)"
  by (cases e) (simp_all add: store_simps)

text \<open>Entering and leaving a data point of the timeline; entering a bubble.\<close>

theorem hover_active_item_witness:
  "hover_kind TimelinePoint = Some ExperienceLevel
   \<and> activeItem (on_mouseover TimelinePoint ''Senior-level'' initial_store)
       = item ExperienceLevel ''Senior-level''
   \<and> activeItem (on_mouseout TimelinePoint False
        (on_mouseover TimelinePoint ''Senior-level'' initial_store)) = no_item
   \<and> activeItem (on_mouseout TimelinePoint True
        (on_mouseover TimelinePoint ''Senior-level'' initial_store))
       = item ExperienceLevel ''Senior-level''
   \<and> hover_kind Bubble = None
   \<and> on_mouseover Bubble ''Senior-level'' initial_store = initial_store"
  using hover_active_item [of TimelinePoint ExperienceLevel "''Senior-level''" initial_store]
    hover_active_item [of TimelinePoint ExperienceLevel "''Senior-level''"
      "on_mouseover TimelinePoint ''Senior-level'' initial_store"]
    hover_active_item [of Bubble _ "''Senior-level''" initial_store]
  by (simp add: store_simps)

section \<open>Properties of the ridgeline statistics\<close>


lemma sort_first_Min:
  fixes vs :: "real list"
  assumes "vs \<noteq> []"
  shows "sort vs ! 0 = Min (set vs)"
proof -
  let ?s = "sort vs"
  have len: "0 < length ?s" using assms by simp
  have "Min (set ?s) = ?s ! 0"
  proof (rule Min_eqI)
    show "finite (set ?s)" by simp
    show "?s ! 0 \<in> set ?s" using len by (rule nth_mem)
    fix y assume "y \<in> set ?s"
    then obtain j where "j < length ?s" "?s ! j = y" by (metis in_set_conv_nth)
    then show "?s ! 0 \<le> y" using sorted_nth_mono [of ?s 0 j] by simp
  qed
  then show ?thesis by simp
qed


lemma d3_median_exact:
  assumes "vs \<noteq> []"
  shows "d3_median vs = Some (exact_median vs)"
proof -
  have sne: "sort vs \<noteq> []"
    using assms by (metis length_0_conv length_sort)
  consider (one) "length vs = 1" | (odd) "2 \<le> length vs" "odd (length vs)"
    | (even) "2 \<le> length vs" "even (length vs)"
    using assms by (cases vs) (auto simp: Suc_le_eq)
  then show ?thesis
  proof cases
    case one
    then obtain x where "vs = [x]" by (cases vs) auto
    then show ?thesis
      by (simp add: d3_median_def d3_quantile_def exact_median_def Let_def)
  next
    case odd
    then obtain k where k: "length vs = 2 * k + 1" by (auto elim: oddE)
    have "real (length vs - 1) * (1 / 2) = real k" using k by simp
    then show ?thesis using odd k sne
      by (simp add: d3_median_def d3_quantile_def exact_median_def Let_def)
  next
    case even
    then obtain k where k: "length vs = 2 * k" by (auto elim: evenE)
    with even have k1: "1 \<le> k" by simp
    have half: "(real (length vs) - 1) / 2 = real (k - 1) + 1 / 2"
      using k k1 by (simp add: field_simps)
    have fl: "\<lfloor>(real (length vs) - 1) / 2\<rfloor> = int (k - 1)"
      unfolding half by linarith
    have fr: "(real (length vs) - 1) / 2 - real (k - 1) = 1 / 2"
      unfolding half by simp
    have ix: "Suc (k - 1) = k" "length vs div 2 = k" "length vs div 2 - Suc 0 = k - 1"
      using k k1 by simp_all
    have fr': "(real (length vs) - 1) / 2 - (real k - 1) = 1 / 2"
      using k k1 by (simp add: field_simps)
    have n1: "nat (int k - 1) = k - Suc 0"
      by simp
    have "d3_median vs = Some (sort vs ! (k - 1) + (sort vs ! k - sort vs ! (k - 1)) * (1 / 2))"
      using even(1) sne ix(1)
      by (simp add: d3_median_def d3_quantile_def Let_def fl fr fr' n1)
    also have "sort vs ! (k - 1) + (sort vs ! k - sort vs ! (k - 1)) * (1 / 2) = exact_median vs"
      using even(2) ix by (simp add: exact_median_def Let_def field_simps)
    finally show ?thesis .
  qed
qed


subsection \<open>Minimum, maximum and median of the statistics\<close>

lemmas stats_defs = jobTitleStats_def Let_def at_index_def

lemma sort_Nil_iff: "sort (vs::real list) = [] \<longleftrightarrow> vs = []"
  by (metis length_0_conv length_sort)

lemma sort_sort: "sort (sort (vs::real list)) = sort vs"
  by (simp add: sort_key_id_if_sorted)

lemma d3_median_sort: "d3_median (sort vs) = d3_median vs"
  by (simp add: d3_median_def d3_quantile_def sort_sort)

lemma stats_median:
  assumes "vs \<noteq> []"
  shows "median (jobTitleStats t vs)
           = (if exact_median vs = 0 then Min (set vs) else exact_median vs)"
  using assms
  by (simp add: stats_defs d3_median_sort d3_median_exact sort_first_Min js_or_def sort_Nil_iff)


lemma stats_single:
  "median (jobTitleStats t [v]) = v"
  "min_v (jobTitleStats t [v]) = v * (9 / 10)"
  "max_v (jobTitleStats t [v]) = v * (11 / 10)"
  by (simp_all add: stats_defs d3_median_def d3_quantile_def js_or_def)

lemma stats_small_quartiles:
  assumes "length vs \<le> 2"
  shows "q1 (jobTitleStats t vs) = (min_v (jobTitleStats t vs) + median (jobTitleStats t vs)) / 2"
    "q3 (jobTitleStats t vs) = (median (jobTitleStats t vs) + max_v (jobTitleStats t vs)) / 2"
  using assms by (simp_all add: stats_defs field_simps)

lemma stats_example:
  "median (jobTitleStats t [10, 20, 30]) = 20"
  "min_v (jobTitleStats t [10, 20, 30]) = 10"
  "max_v (jobTitleStats t [10, 20, 30]) = 30"
  by (simp_all add: stats_defs d3_median_def d3_quantile_def js_or_def)

lemma exact_median_ge_Min:
  assumes "vs \<noteq> []"
  shows "Min (set vs) \<le> exact_median vs"
proof -
  let ?s = "sort vs"
  have len: "length ?s = length vs" by simp
  have pos: "0 < length vs" using assms by simp
  have lo: "?s ! 0 \<le> ?s ! j" if "j < length vs" for j
    using sorted_nth_mono [of ?s 0 j] that by simp
  have "?s ! 0 \<le> exact_median vs"
  proof (cases "odd (length vs)")
    case True
    then show ?thesis using lo [of "length vs div 2"] pos
      by (simp add: exact_median_def Let_def)
  next
    case False
    have "length vs div 2 < length vs" "length vs div 2 - 1 < length vs"
      using pos by arith+
    then have "?s ! 0 \<le> ?s ! (length vs div 2)" "?s ! 0 \<le> ?s ! (length vs div 2 - 1)"
      using lo by blast+
    then show ?thesis using False
      by (simp add: exact_median_def Let_def field_simps)
  qed
  then show ?thesis using assms by (simp add: sort_first_Min)
qed

lemma stats_median_nonneg:
  assumes "vs \<noteq> []" and "\<forall>v \<in> set vs. 0 \<le> v"
  shows "median (jobTitleStats t vs) = exact_median vs"
proof -
  have "Min (set vs) \<in> set vs" using assms(1) by simp
  then have "0 \<le> Min (set vs)" using assms(2) by blast
  moreover have "Min (set vs) \<le> exact_median vs" using assms(1) by (rule exact_median_ge_Min)
  ultimately have "exact_median vs = 0 \<Longrightarrow> Min (set vs) = 0" by linarith
  then show ?thesis using assms(1) by (simp add: stats_median)
qed

subsection \<open>A median of zero\<close>

text \<open>
  C5.  The claim asks for the exact median of every non-empty list of values.  The
  statistics take \<^verbatim>\<open>d3.median(sortedValues) || sortedValues[0] || 0\<close>: a median that
  is zero counts as missing, and the smallest value stands in for it.  For the values
  \<open>-5, 0, 5\<close> the median is 0 and the statistics give \<open>-5\<close>.  (Where the median is not
  zero, or the smallest value is zero, as for values that are not negative, the lemmas
  above give the claim: \<open>stats_median_nonneg\<close>, \<open>stats_min_max\<close>, \<open>stats_single\<close>,
  \<open>stats_small_quartiles\<close>, \<open>stats_example\<close>.)
\<close>

theorem median_zero_falls_back:
  "median (jobTitleStats ''Analyst'' [-5, 0, 5]) = -5 \<and> exact_median [-5, 0, 5] = 0"
  by (simp add: stats_defs d3_median_def d3_quantile_def js_or_def exact_median_def)

subsection \<open>The density curve\<close>














section \<open>Properties of the aggregation by week and quarter\<close>

























section \<open>Properties of the aggregates of HiringPulseChart\<close>

lemma tech_low:
  "map_option (\<lambda>a. byIndustry a ''Technology'')
     (HiringPulseChart_getAggregatedData draws_low (Some two_days)) = Some (Some 1)"
  by (simp add: HiringPulseChart_getAggregatedData_def initLevels_def sumLevel_def
        distributeIndustry_def hp_industries_def two_days_def draws_low_def count_at_def
        js_or_def Math_round_def Let_def)

lemma tech_half:
  "map_option (\<lambda>a. byIndustry a ''Technology'')
     (HiringPulseChart_getAggregatedData draws_half (Some two_days)) = Some (Some 2)"
  by (simp add: HiringPulseChart_getAggregatedData_def initLevels_def sumLevel_def
        distributeIndustry_def hp_industries_def two_days_def draws_half_def count_at_def
        js_or_def Math_round_def Let_def)

text \<open>
  The same payload with two sequences of draws: with every draw 0 the weight is one half
  and Technology gets 1 of the 10 postings, with every draw one half the weight is three
  quarters and Technology gets 2.
\<close>

theorem random_weights_counterexample:
  "HiringPulseChart_getAggregatedData draws_low (Some two_days)
     \<noteq> HiringPulseChart_getAggregatedData draws_half (Some two_days)"
proof
  assume "HiringPulseChart_getAggregatedData draws_low (Some two_days)
     = HiringPulseChart_getAggregatedData draws_half (Some two_days)"
  then have "map_option (\<lambda>a. byIndustry a ''Technology'')
       (HiringPulseChart_getAggregatedData draws_low (Some two_days))
     = map_option (\<lambda>a. byIndustry a ''Technology'')
       (HiringPulseChart_getAggregatedData draws_half (Some two_days))"
    by simp
  then show False by (simp add: tech_low tech_half)
qed

text \<open>
  C4, as the code has it.  The aggregates of HiringPulseChart are a function of the payload
  and of the values \<^verbatim>\<open>Math.random()\<close> returns.  The totals by experience level, the
  time series, and the lists of levels, industries and time points do not depend on the
  draws: two derivations from the same payload agree on them.  The distribution over the
  industries (\<^verbatim>\<open>byIndustry\<close>, \<^verbatim>\<open>byExperienceAndIndustry\<close>) is simulated with
  the draws.
\<close>

theorem aggregates_apart_from_draws:
  "map_option byExperience (HiringPulseChart_getAggregatedData rnd data)
     = map_option byExperience (HiringPulseChart_getAggregatedData rnd' data)
   \<and> map_option timeSeries (HiringPulseChart_getAggregatedData rnd data)
     = map_option timeSeries (HiringPulseChart_getAggregatedData rnd' data)
   \<and> map_option ha_experienceLevels (HiringPulseChart_getAggregatedData rnd data)
     = map_option ha_experienceLevels (HiringPulseChart_getAggregatedData rnd' data)
   \<and> map_option ha_industries (HiringPulseChart_getAggregatedData rnd data)
     = map_option ha_industries (HiringPulseChart_getAggregatedData rnd' data)
   \<and> map_option ha_timePoints (HiringPulseChart_getAggregatedData rnd data)
     = map_option ha_timePoints (HiringPulseChart_getAggregatedData rnd' data)"
  by (simp add: HiringPulseChart_getAggregatedData_def split: option.splits prod.splits)

text \<open>The total of ``Senior-level'' is 10 under both sequences of draws.\<close>

theorem aggregates_apart_from_draws_witness:
  "map_option (\<lambda>a. byExperience a ''Senior-level'')
      (HiringPulseChart_getAggregatedData draws_low (Some two_days)) = Some (Some 10)
   \<and> map_option byExperience (HiringPulseChart_getAggregatedData draws_low (Some two_days))
     = map_option byExperience (HiringPulseChart_getAggregatedData draws_half (Some two_days))"
  using aggregates_apart_from_draws [of draws_low "Some two_days" draws_half]
  by (simp add: HiringPulseChart_getAggregatedData_def initLevels_def sumLevel_def
        two_days_def count_at_def js_or_def Let_def split: prod.splits)

section \<open>Properties of the no-data state\<close>




section \<open>Properties of parseDate\<close>

lemma parseDate_no_log: "snd (parseDate L s) = []"
  by (simp add: parseDate_def new_Date_def Let_def)

text \<open>
  C9.  The claim asks that a label that cannot be parsed is replaced by the current date,
  with a diagnostic.  The code wraps \<^verbatim>\<open>new Date(dateString)\<close> in
  \<^verbatim>\<open>try\<close>/\<^verbatim>\<open>catch\<close> and puts the replacement in the \<^verbatim>\<open>catch\<close>; the
  constructor does not throw, so for a label without ``-'' and ``Q'' that
  \<^verbatim>\<open>Date\<close> cannot read, \<^verbatim>\<open>parseDate\<close> returns the Invalid Date and writes
  nothing.
\<close>

theorem parseDate_keeps_invalid_date:
  "CHR ''-'' \<notin> set s \<Longrightarrow> CHR ''Q'' \<notin> set s \<Longrightarrow> Date_string L s = InvalidDate \<Longrightarrow>
     parseDate L s = (InvalidDate, [])"
  by (simp add: parseDate_def new_Date_def)

text \<open>The label ``garbage'': the Invalid Date, no diagnostic, and not the current date.\<close>

theorem parseDate_keeps_invalid_date_witness:
  "CHR ''-'' \<notin> set ''garbage'' \<and> CHR ''Q'' \<notin> set ''garbage''
   \<and> Date_string strict_lib ''garbage'' = InvalidDate
   \<and> parseDate strict_lib ''garbage'' = (InvalidDate, [])
   \<and> Date_now strict_lib = DateAt 1000"
  using parseDate_keeps_invalid_date [of "''garbage''" strict_lib]
  by (simp add: strict_lib_def)

end
